theory Spec2Isabelle
  imports Main "HOL-Library.Word"
begin

unbundle bit_operations_syntax

section \<open>Machine types of the page provider\<close>

text \<open>
  \<open>size_t\<close> and \<open>void *\<close> are words of one width \<open>'w\<close>, left open: the header is
  compiled for 32-bit and 64-bit targets alike.  C \<open>int\<close>, the Win32 \<open>BOOL\<close> and
  \<open>DWORD\<close> are 32-bit words; \<open>+\<close> on them wraps.  \<open>off_t\<close> is a 64-bit word.
\<close>

type_synonym 'w size_t = "'w word"
type_synonym 'w ptr = "'w word"
type_synonym c_int = "32 word"
type_synonym dword = "32 word"
type_synonym off_t = "64 word"

definition NULL :: "'w::len ptr" where
  "NULL = 0"

text \<open>\<^verbatim>\<open>#define SIZE_MAX ((size_t)(-1))\<close>\<close>

definition SIZE_MAX :: "'w::len size_t" where
  "SIZE_MAX = - 1"

text \<open>
  Constants of the system headers (\<^verbatim>\<open><sys/mman.h>\<close>, \<^verbatim>\<open><unistd.h>\<close>,
  \<^verbatim>\<open><memoryapi.h>\<close>), with their values on Linux x86 and on Win32.
\<close>

definition MAP_FAILED :: "'w::len ptr" where
  "MAP_FAILED = - 1"

definition MAP_PRIVATE :: c_int where
  "MAP_PRIVATE = 0x02"

definition MAP_FIXED :: c_int where
  "MAP_FIXED = 0x10"

definition MAP_ANONYMOUS :: c_int where
  "MAP_ANONYMOUS = 0x20"

definition PROT_READ :: c_int where
  "PROT_READ = 0x1"

definition PROT_WRITE :: c_int where
  "PROT_WRITE = 0x2"

definition SC_PAGESIZE :: c_int where
  "SC_PAGESIZE = 30"

definition MEM_COMMIT :: dword where
  "MEM_COMMIT = 0x1000"

definition MEM_RESERVE :: dword where
  "MEM_RESERVE = 0x2000"

definition MEM_RELEASE :: dword where
  "MEM_RELEASE = 0x8000"

definition PAGE_READWRITE :: dword where
  "PAGE_READWRITE = 0x04"

section \<open>The operating system\<close>

text \<open>
  The two builds of \<^verbatim>\<open>allockit_page.h\<close>, chosen by the preprocessor
  (\<^verbatim>\<open>ALLOCKIT_PAGE_PLATFORM_WINDOWS\<close>, \<^verbatim>\<open>ALLOCKIT_PAGE_PLATFORM_LINUX\<close>).
\<close>

datatype platform = Windows | Linux

text \<open>Every call the page provider can make into the operating system, with its arguments.\<close>

datatype ('p, 's) os_call =
    Call_GetSystemInfo
  | Call_sysconf c_int
  | Call_VirtualAlloc 'p 's dword dword
  | Call_mmap 'p 's c_int c_int c_int off_t
  | Call_VirtualFree 'p 's dword
  | Call_munmap 'p 's

text \<open>
  The operating system is not part of the repository: it is a parameter.  Each primitive
  answers from the calls made so far (the history stands for the state of the address
  space) and from its arguments.  Nothing is assumed about the answers; a theorem that
  needs a documented property of a primitive states it as a hypothesis.
\<close>

record ('h, 'p, 's) os =
  os_GetSystemInfo :: "'h \<Rightarrow> dword"
  os_sysconf :: "'h \<Rightarrow> c_int \<Rightarrow> 's"
  os_VirtualAlloc :: "'h \<Rightarrow> 'p \<Rightarrow> 's \<Rightarrow> dword \<Rightarrow> dword \<Rightarrow> 'p"
  os_mmap :: "'h \<Rightarrow> 'p \<Rightarrow> 's \<Rightarrow> c_int \<Rightarrow> c_int \<Rightarrow> c_int \<Rightarrow> off_t \<Rightarrow> 'p"
  os_VirtualFree :: "'h \<Rightarrow> 'p \<Rightarrow> 's \<Rightarrow> dword \<Rightarrow> c_int"
  os_munmap :: "'h \<Rightarrow> 'p \<Rightarrow> 's \<Rightarrow> c_int"

type_synonym 'w trace = "('w word, 'w word) os_call list"
type_synonym 'w opsys = "('w trace, 'w word, 'w word) os"

text \<open>A primitive returns its answer and logs the call.\<close>

definition GetSystemInfo :: "'w::len opsys \<Rightarrow> 'w trace \<Rightarrow> dword \<times> 'w trace" where
  "GetSystemInfo sys tr = (os_GetSystemInfo sys tr, tr @ [Call_GetSystemInfo])"

definition sysconf :: "'w::len opsys \<Rightarrow> 'w trace \<Rightarrow> c_int \<Rightarrow> 'w word \<times> 'w trace" where
  "sysconf sys tr name = (os_sysconf sys tr name, tr @ [Call_sysconf name])"

definition VirtualAlloc ::
  "'w::len opsys \<Rightarrow> 'w trace \<Rightarrow> 'w ptr \<Rightarrow> 'w size_t \<Rightarrow> dword \<Rightarrow> dword \<Rightarrow> 'w ptr \<times> 'w trace" where
  "VirtualAlloc sys tr addr sz ty protect =
     (os_VirtualAlloc sys tr addr sz ty protect,
      tr @ [Call_VirtualAlloc addr sz ty protect])"

definition mmap ::
  "'w::len opsys \<Rightarrow> 'w trace \<Rightarrow> 'w ptr \<Rightarrow> 'w size_t \<Rightarrow> c_int \<Rightarrow> c_int \<Rightarrow> c_int \<Rightarrow> off_t
     \<Rightarrow> 'w ptr \<times> 'w trace" where
  "mmap sys tr addr len prot flags fd off =
     (os_mmap sys tr addr len prot flags fd off,
      tr @ [Call_mmap addr len prot flags fd off])"

definition VirtualFree ::
  "'w::len opsys \<Rightarrow> 'w trace \<Rightarrow> 'w ptr \<Rightarrow> 'w size_t \<Rightarrow> dword \<Rightarrow> c_int \<times> 'w trace" where
  "VirtualFree sys tr addr sz ty =
     (os_VirtualFree sys tr addr sz ty, tr @ [Call_VirtualFree addr sz ty])"

definition munmap ::
  "'w::len opsys \<Rightarrow> 'w trace \<Rightarrow> 'w ptr \<Rightarrow> 'w size_t \<Rightarrow> c_int \<times> 'w trace" where
  "munmap sys tr addr len = (os_munmap sys tr addr len, tr @ [Call_munmap addr len])"

section \<open>The page provider (\<^verbatim>\<open>allockit_page.h\<close>)\<close>

text \<open>\<^verbatim>\<open>typedef struct AkPageChunk { void *start; size_t count; } AkPageChunk;\<close>\<close>

record ('p, 's) AkPageChunk =
  start :: 'p
  count :: 's

type_synonym 'w chunk = "('w word, 'w word) AkPageChunk"

text \<open>
  \<^verbatim>\<open>ak_page_getPageSize\<close>.  On Windows \<^verbatim>\<open>GetSystemInfo\<close> returns nothing and the
  \<open>DWORD\<close> \<^verbatim>\<open>dwPageSize\<close> is cast to \<open>size_t\<close>.  On Linux \<^verbatim>\<open>sysconf\<close> returns a
  \<open>long\<close>, kept in an \<open>ssize_t\<close> of the width of \<open>size_t\<close>; the comparison with 0 is signed.
\<close>

definition ak_page_getPageSize ::
  "platform \<Rightarrow> 'w::len opsys \<Rightarrow> 'w trace \<Rightarrow> 'w size_t \<times> 'w trace" where
  "ak_page_getPageSize pf sys tr =
     (case pf of
        Windows \<Rightarrow>
          (let (dwPageSize, tr') = GetSystemInfo sys tr
           in (ucast dwPageSize, tr'))
      | Linux \<Rightarrow>
          (let (m_page_size, tr') = sysconf sys tr SC_PAGESIZE
           in if m_page_size \<le>s 0 then (0, tr') else (m_page_size, tr')))"

text \<open>
  \<^verbatim>\<open>ak_page_requestPages\<close>.  \<open>res\<close> is the zero-initialised chunk.  The division in
  the overflow check is only evaluated when \<open>count\<close> is nonzero, as \<^verbatim>\<open>&&\<close> does.
  The Windows branch stores whatever \<^verbatim>\<open>VirtualAlloc\<close> returned; only the Linux branch
  tests the value returned by the primitive.
\<close>

definition ak_page_requestPages ::
  "platform \<Rightarrow> 'w::len opsys \<Rightarrow> 'w trace \<Rightarrow> 'w size_t \<Rightarrow> 'w ptr \<Rightarrow> 'w size_t
     \<Rightarrow> 'w chunk \<times> 'w trace" where
  "ak_page_requestPages pf sys tr page_size addr cnt =
     (let res = \<lparr>start = NULL, count = 0\<rparr>
      in if cnt \<noteq> 0 \<and> page_size > SIZE_MAX div cnt then (res, tr)
         else
           (let length = page_size * cnt
            in case pf of
                 Windows \<Rightarrow>
                   (let (m_addr, tr') =
                          VirtualAlloc sys tr addr length (MEM_COMMIT OR MEM_RESERVE)
                            PAGE_READWRITE
                    in (res\<lparr>start := m_addr, count := cnt\<rparr>, tr'))
               | Linux \<Rightarrow>
                   (let flags = MAP_ANONYMOUS OR MAP_PRIVATE;
                        flags = (if addr \<noteq> NULL then flags OR MAP_FIXED else flags);
                        (m_addr, tr') =
                          mmap sys tr addr length (PROT_READ OR PROT_WRITE) flags (- 1) 0
                    in if m_addr = MAP_FAILED then (res, tr')
                       else (res\<lparr>start := m_addr, count := cnt\<rparr>, tr'))))"

text \<open>
  \<^verbatim>\<open>ak_page_returnPages\<close>.  The chunk is passed by pointer and updated in place: the
  model returns the \<open>int\<close> result, the chunk after the call and the trace.  The product
  \<^verbatim>\<open>page_size * pages->count\<close> is computed in \<open>size_t\<close> and wraps.
\<close>

definition ak_page_returnPages ::
  "platform \<Rightarrow> 'w::len opsys \<Rightarrow> 'w trace \<Rightarrow> 'w size_t \<Rightarrow> 'w chunk
     \<Rightarrow> c_int \<times> 'w chunk \<times> 'w trace" where
  "ak_page_returnPages pf sys tr page_size pages =
     (let (res, tr') =
            (case pf of
               Windows \<Rightarrow> VirtualFree sys tr (start pages) 0 MEM_RELEASE
             | Linux \<Rightarrow>
                 (let length = page_size * count pages;
                      (r, tr') = munmap sys tr (start pages) length
                  in (r + 1, tr')))
      in (res, if res \<noteq> 0 then pages\<lparr>start := NULL\<rparr> else pages, tr'))"

text \<open>
  What the documentation of the release primitives calls a failure: \<^verbatim>\<open>munmap\<close> returns
  -1 (the source's own comment: ``munmap returns -1 on failure, 0 on success''),
  \<^verbatim>\<open>VirtualFree\<close> returns \<open>FALSE\<close>.  The arguments are those \<^verbatim>\<open>ak_page_returnPages\<close>
  passes.
\<close>

definition release_failed ::
  "platform \<Rightarrow> 'w::len opsys \<Rightarrow> 'w trace \<Rightarrow> 'w size_t \<Rightarrow> 'w chunk \<Rightarrow> bool" where
  "release_failed pf sys tr page_size pages =
     (case pf of
        Windows \<Rightarrow> os_VirtualFree sys tr (start pages) 0 MEM_RELEASE = 0
      | Linux \<Rightarrow> os_munmap sys tr (start pages) (page_size * count pages) = - 1)"

text \<open>
  When the page-size query fails: \<^verbatim>\<open>sysconf\<close> returns -1; \<^verbatim>\<open>GetSystemInfo\<close> has no
  failure result.  \<open>os_page_granularity\<close> is the number the operating system reports.
\<close>

definition query_failed :: "platform \<Rightarrow> 'w::len opsys \<Rightarrow> 'w trace \<Rightarrow> bool" where
  "query_failed pf sys tr =
     (case pf of
        Windows \<Rightarrow> False
      | Linux \<Rightarrow> os_sysconf sys tr SC_PAGESIZE = - 1)"

definition os_page_granularity :: "platform \<Rightarrow> 'w::len opsys \<Rightarrow> 'w trace \<Rightarrow> nat" where
  "os_page_granularity pf sys tr =
     (case pf of
        Windows \<Rightarrow> unat (os_GetSystemInfo sys tr)
      | Linux \<Rightarrow> unat (os_sysconf sys tr SC_PAGESIZE))"

text \<open>The invariant the specification gives for a page chunk.\<close>

definition chunk_invariant :: "'w::len chunk \<Rightarrow> bool" where
  "chunk_invariant c = ((start c = NULL) = (count c = 0))"

subsection \<open>Two concrete 64-bit systems\<close>

text \<open>
  \<open>os_grant\<close> grants every request of nonzero length, at the hint when there is one, and
  every release; \<open>os_refuse\<close> fails every call with the primitive's documented failure
  value.
\<close>

definition os_grant :: "64 opsys" where
  "os_grant =
     \<lparr>os_GetSystemInfo = (\<lambda>tr. 4096),
      os_sysconf = (\<lambda>tr name. 4096),
      os_VirtualAlloc = (\<lambda>tr addr sz ty protect.
         if sz = 0 then NULL else if addr = NULL then 0x7F0000000000 else addr),
      os_mmap = (\<lambda>tr addr len prot flags fd off.
         if len = 0 then MAP_FAILED else if addr = NULL then 0x7F0000000000 else addr),
      os_VirtualFree = (\<lambda>tr addr sz ty. 1),
      os_munmap = (\<lambda>tr addr len. 0)\<rparr>"

definition os_refuse :: "64 opsys" where
  "os_refuse =
     \<lparr>os_GetSystemInfo = (\<lambda>tr. 4096),
      os_sysconf = (\<lambda>tr name. - 1),
      os_VirtualAlloc = (\<lambda>tr addr sz ty protect. NULL),
      os_mmap = (\<lambda>tr addr len prot flags fd off. MAP_FAILED),
      os_VirtualFree = (\<lambda>tr addr sz ty. 0),
      os_munmap = (\<lambda>tr addr len. - 1)\<rparr>"

section \<open>The allocator interface (\<^verbatim>\<open>allockit.h\<close>)\<close>

text \<open>
  The entry points \<^verbatim>\<open>ak_alloc\<close>, \<^verbatim>\<open>ak_resize\<close> and \<^verbatim>\<open>ak_free\<close> are function-like
  macros, so what they do is what their replacement lists say.  Expressions are kept as
  syntax trees (parentheses dropped); \<^verbatim>\<open>ALLOCKIT_ALIGNOF\<close> is at its default,
  \<^verbatim>\<open>alignof\<close>.
\<close>

datatype cexpr =
    Ident string
  | Arrow cexpr string
  | Call cexpr "cexpr list"
  | Sizeof cexpr
  | Alignof cexpr

record macro =
  params :: "string list"
  body :: cexpr

text \<open>Replacing the parameters of a macro by the arguments; other identifiers stay.\<close>

fun subst :: "(string \<rightharpoonup> cexpr) \<Rightarrow> cexpr \<Rightarrow> cexpr" where
  "subst \<sigma> (Ident x) = (case \<sigma> x of None \<Rightarrow> Ident x | Some e \<Rightarrow> e)"
| "subst \<sigma> (Arrow e f) = Arrow (subst \<sigma> e) f"
| "subst \<sigma> (Call f args) = Call (subst \<sigma> f) (map (subst \<sigma>) args)"
| "subst \<sigma> (Sizeof e) = Sizeof (subst \<sigma> e)"
| "subst \<sigma> (Alignof e) = Alignof (subst \<sigma> e)"

text \<open>
  The five \<^verbatim>\<open>#define\<close> directives of lines 225 to 236, in the order of the file.
  \<^verbatim>\<open>ak_alloc\<close> and \<^verbatim>\<open>ak_resize\<close> are each defined twice.  The replacement lists of the
  five-parameter \<^verbatim>\<open>ak_resize\<close> and of \<^verbatim>\<open>ak_free\<close> name \<^verbatim>\<open>Alloc\<close>, which is not one of
  their parameters.
\<close>

definition allockit_defines :: "(string \<times> macro) list" where
  "allockit_defines =
    [(''ak_alloc'',
      \<lparr>params = [''pAlloc'', ''Size'', ''Align'', ''Count''],
       body = Call (Arrow (Ident ''pAlloc'') ''alloc'')
                [Ident ''pAlloc'', Ident ''Size'', Ident ''Align'', Ident ''Count'']\<rparr>),
     (''ak_alloc'',
      \<lparr>params = [''pAlloc'', ''T'', ''Count''],
       body = Call (Ident ''ak_alloc'')
                [Ident ''pAlloc'', Sizeof (Ident ''T''), Alignof (Ident ''T''),
                 Ident ''Count'']\<rparr>),
     (''ak_resize'',
      \<lparr>params = [''pAlloc'', ''Addr'', ''Size'', ''Align'', ''Count''],
       body = Call (Arrow (Ident ''Alloc'') ''resize'')
                [Ident ''pAlloc'', Ident ''Addr'', Ident ''Size'', Ident ''Align'',
                 Ident ''Count'']\<rparr>),
     (''ak_resize'',
      \<lparr>params = [''pAlloc'', ''Addr'', ''T'', ''Count''],
       body = Call (Ident ''ak_resize'')
                [Ident ''pAlloc'', Ident ''Addr'', Sizeof (Ident ''T''), Alignof (Ident ''T''),
                 Ident ''Count'']\<rparr>),
     (''ak_free'',
      \<lparr>params = [''pAlloc'', ''Addr''],
       body = Call (Arrow (Ident ''Alloc'') ''free'') [Ident ''pAlloc'', Ident ''Addr'']\<rparr>)]"

text \<open>
  Expanding the invocation \<open>name(args)\<close>.  A later \<^verbatim>\<open>#define\<close> of a name replaces the
  earlier one (compilers warn and go on), and an invocation with the wrong number of
  arguments is an error.  The replacement is not expanded again here: the only macro
  name that occurs in a replacement list of this header is the macro's own, which the
  preprocessor leaves alone when it rescans.
\<close>

definition expand :: "(string \<times> macro) list \<Rightarrow> string \<Rightarrow> cexpr list \<Rightarrow> cexpr option" where
  "expand defs name args =
     (case map_of (rev defs) name of
        None \<Rightarrow> None
      | Some m \<Rightarrow>
          if length (params m) = length args
          then Some (subst (map_of (zip (params m) args)) (body m))
          else None)"

text \<open>The dispatch the documentation promises: the capability of the instance passed.\<close>

definition dispatch_alloc :: "cexpr \<Rightarrow> cexpr \<Rightarrow> cexpr \<Rightarrow> cexpr" where
  "dispatch_alloc pAlloc T Count =
     Call (Arrow pAlloc ''alloc'') [pAlloc, Sizeof T, Alignof T, Count]"

definition dispatch_resize :: "cexpr \<Rightarrow> cexpr \<Rightarrow> cexpr \<Rightarrow> cexpr \<Rightarrow> cexpr" where
  "dispatch_resize pAlloc Addr T Count =
     Call (Arrow pAlloc ''resize'') [pAlloc, Addr, Sizeof T, Alignof T, Count]"

definition dispatch_free :: "cexpr \<Rightarrow> cexpr \<Rightarrow> cexpr" where
  "dispatch_free pAlloc Addr = Call (Arrow pAlloc ''free'') [pAlloc, Addr]"

section \<open>The overflow check and the release call\<close>

text \<open>
  The test \<^verbatim>\<open>page_size > SIZE_MAX/count\<close> is exact: for a nonzero count it holds
  precisely when the mathematical product does not fit the width.
\<close>

lemma overflow_check_iff:
  fixes page_size cnt :: "'w::len word"
  assumes "cnt \<noteq> 0"
  shows "(page_size > SIZE_MAX div cnt) = (2 ^ LENGTH('w) \<le> unat page_size * unat cnt)"
proof -
  have pos: "0 < unat cnt"
    using assms by (simp add: unat_gt_0)
  have "(page_size > SIZE_MAX div cnt) = ((2 ^ LENGTH('w) - 1) div unat cnt < unat page_size)"
    by (simp add: SIZE_MAX_def word_less_nat_alt unat_div unsigned_minus_1_eq_mask
        mask_eq_exp_minus_1)
  also have "\<dots> = (2 ^ LENGTH('w) - 1 < unat page_size * unat cnt)"
    using pos by (rule div_less_iff_less_mult)
  also have "\<dots> = (2 ^ LENGTH('w) \<le> unat page_size * unat cnt)"
  proof -
    have "0 < (2::nat) ^ LENGTH('w)" by simp
    then show ?thesis by arith
  qed
  finally show ?thesis .
qed

lemma requestPages_on_overflow:
  fixes page_size cnt :: "'w::len word"
  assumes "2 ^ LENGTH('w) \<le> unat page_size * unat cnt"
  shows "ak_page_requestPages pf sys tr page_size addr cnt =
           (\<lparr>start = NULL, count = 0\<rparr>, tr)"
proof -
  have "cnt \<noteq> 0"
    using assms by (cases "cnt = 0") auto
  then show ?thesis
    using assms overflow_check_iff [of cnt page_size]
    by (simp add: ak_page_requestPages_def)
qed

lemma returnPages_trace:
  "snd (snd (ak_page_returnPages pf sys tr page_size pages)) =
     tr @ [case pf of
             Windows \<Rightarrow> Call_VirtualFree (start pages) 0 MEM_RELEASE
           | Linux \<Rightarrow> Call_munmap (start pages) (page_size * count pages)]"
  by (simp add: ak_page_returnPages_def Let_def VirtualFree_def munmap_def
      split: prod.splits platform.splits)

lemma returnPages_chunk:
  "fst (snd (ak_page_returnPages pf sys tr page_size pages)) =
     (if fst (ak_page_returnPages pf sys tr page_size pages) \<noteq> 0
      then pages\<lparr>start := NULL\<rparr> else pages)"
  by (simp add: ak_page_returnPages_def Let_def split: prod.splits)

lemma returnPages_result:
  "(fst (ak_page_returnPages pf sys tr page_size pages) = 0) =
     release_failed pf sys tr page_size pages"
  by (simp add: ak_page_returnPages_def release_failed_def Let_def VirtualFree_def
      munmap_def eq_neg_iff_add_eq_0 split: prod.splits platform.splits)

section \<open>Querying the page size\<close>

lemma ucast_dword_unat:
  fixes d :: dword
  assumes "32 \<le> LENGTH('w::len)"
  shows "unat (ucast d :: 'w word) = unat d"
proof -
  have "unat d < 2 ^ 32"
    using unsigned_less [of d, where ?'a = nat] by simp
  also have "(2::nat) ^ 32 \<le> 2 ^ LENGTH('w)"
    using assms by (intro power_increasing) simp_all
  finally show ?thesis
    by (simp add: unsigned_ucast_eq take_bit_nat_eq_self)
qed

lemma getPageSize_windows:
  "fst (ak_page_getPageSize Windows sys tr) = ucast (os_GetSystemInfo sys tr)"
  by (simp add: ak_page_getPageSize_def GetSystemInfo_def)

lemma getPageSize_linux:
  "fst (ak_page_getPageSize Linux sys tr) =
     (if os_sysconf sys tr SC_PAGESIZE \<le>s 0 then 0 else os_sysconf sys tr SC_PAGESIZE)"
  by (simp add: ak_page_getPageSize_def sysconf_def)

text \<open>
  C9.  \<^verbatim>\<open>ak_page_getPageSize\<close> passes on what the operating system reports.  Take any
  two moments \<open>tr\<close> and \<open>tr'\<close> of one process run, on a system whose \<open>size_t\<close> has at
  least the 32 bits of a \<open>DWORD\<close>, and on which the query behaves as documented:
  \<^verbatim>\<open>sysconf(_SC_PAGESIZE)\<close> answers -1 or a positive number, \<^verbatim>\<open>GetSystemInfo\<close> reports a
  nonzero page size, and the answers are the same at both moments.  Then the result is
  0 exactly when the query failed; when it did not fail the result is positive and is
  the granularity reported; and the result at \<open>tr'\<close> is the result at \<open>tr\<close>.
\<close>

theorem getPageSize_reports_granularity:
  fixes sys :: "'w::len opsys"
  assumes width: "32 \<le> LENGTH('w)"
    and posix: "os_sysconf sys tr SC_PAGESIZE = - 1 \<or> 0 <s os_sysconf sys tr SC_PAGESIZE"
    and win32: "os_GetSystemInfo sys tr \<noteq> 0"
    and stable: "os_sysconf sys tr' SC_PAGESIZE = os_sysconf sys tr SC_PAGESIZE"
      "os_GetSystemInfo sys tr' = os_GetSystemInfo sys tr"
  shows "(fst (ak_page_getPageSize pf sys tr) = 0) = query_failed pf sys tr \<and>
         (\<not> query_failed pf sys tr \<longrightarrow>
            0 < fst (ak_page_getPageSize pf sys tr) \<and>
            unat (fst (ak_page_getPageSize pf sys tr)) = os_page_granularity pf sys tr) \<and>
         fst (ak_page_getPageSize pf sys tr') = fst (ak_page_getPageSize pf sys tr)"
proof (cases pf)
  case Windows
  have u: "unat (ucast (os_GetSystemInfo sys tr) :: 'w word) = unat (os_GetSystemInfo sys tr)"
    using width by (rule ucast_dword_unat)
  have "unat (os_GetSystemInfo sys tr) \<noteq> 0"
    using win32 by (simp add: unat_eq_0)
  with u have nz: "(ucast (os_GetSystemInfo sys tr) :: 'w word) \<noteq> 0"
    by (metis unat_eq_0)
  show ?thesis
    using u nz stable Windows
    by (simp add: getPageSize_windows query_failed_def os_page_granularity_def word_neq_0_conv)
next
  case Linux
  let ?m = "os_sysconf sys tr SC_PAGESIZE"
  from posix show ?thesis
  proof
    assume f: "?m = - 1"
    then have "?m \<le>s 0"
      by (simp add: word_sle_eq)
    with f stable Linux show ?thesis
      by (simp add: getPageSize_linux query_failed_def)
  next
    assume p: "0 <s ?m"
    then have a: "\<not> ?m \<le>s 0" and b: "?m \<noteq> - 1" and c: "?m \<noteq> 0"
      by (auto simp: word_sle_eq word_sless_alt)
    with stable Linux show ?thesis
      by (simp add: getPageSize_linux query_failed_def os_page_granularity_def word_neq_0_conv)
  qed
qed

theorem getPageSize_reports_granularity_witness:
  "32 \<le> LENGTH(64) \<and>
   (os_sysconf os_grant [] SC_PAGESIZE = - 1 \<or> 0 <s os_sysconf os_grant [] SC_PAGESIZE) \<and>
   os_GetSystemInfo os_grant [] \<noteq> 0 \<and>
   os_sysconf os_grant [Call_sysconf SC_PAGESIZE] SC_PAGESIZE = os_sysconf os_grant [] SC_PAGESIZE \<and>
   os_GetSystemInfo os_grant [Call_sysconf SC_PAGESIZE] = os_GetSystemInfo os_grant [] \<and>
   \<not> query_failed Linux os_grant [] \<and>
   fst (ak_page_getPageSize Linux os_grant []) = 4096 \<and>
   os_page_granularity Linux os_grant [] = 4096 \<and>
   fst (ak_page_getPageSize Linux os_grant [Call_sysconf SC_PAGESIZE]) = 4096"
  using getPageSize_reports_granularity [where 'w = 64, of os_grant "[]" "[Call_sysconf SC_PAGESIZE]" Linux]
  by (simp add: os_grant_def query_failed_def os_page_granularity_def ak_page_getPageSize_def
      sysconf_def word_sle_eq word_sless_alt)

section \<open>Requesting pages\<close>

text \<open>
  C1.  When \<open>page_size * count\<close> does not fit \<open>size_t\<close>, \<^verbatim>\<open>ak_page_requestPages\<close>
  returns the chunk with null start and zero count, and the trace of operating-system
  calls is the one it was given: no call is made.  This holds on both platforms and for
  every address hint.
\<close>

theorem requestPages_overflow_no_os_call:
  fixes page_size cnt :: "'w::len word"
  assumes "2 ^ LENGTH('w) \<le> unat page_size * unat cnt"
  shows "ak_page_requestPages pf sys tr page_size addr cnt =
           (\<lparr>start = NULL, count = 0\<rparr>, tr)"
  using assms by (rule requestPages_on_overflow)

theorem requestPages_overflow_no_os_call_witness:
  "2 ^ LENGTH(64) \<le> unat (4096 :: 64 word) * unat (2 ^ 52 :: 64 word) \<and>
   ak_page_requestPages Linux os_grant [] 4096 NULL (2 ^ 52) =
     (\<lparr>start = NULL, count = 0\<rparr>, [])"
  using requestPages_overflow_no_os_call [where 'w = 64, of 4096 "2 ^ 52" Linux os_grant "[]" NULL]
  by simp

lemma requestPages_linux_failure:
  assumes "os_mmap sys tr addr (page_size * cnt) (PROT_READ OR PROT_WRITE)
             (if addr \<noteq> NULL then (MAP_ANONYMOUS OR MAP_PRIVATE) OR MAP_FIXED
              else MAP_ANONYMOUS OR MAP_PRIVATE) (- 1) 0 = MAP_FAILED"
  shows "fst (ak_page_requestPages Linux sys tr page_size addr cnt) =
           \<lparr>start = NULL, count = 0\<rparr>"
proof (cases "addr = NULL")
  case True
  with assms show ?thesis
    by (simp add: ak_page_requestPages_def mmap_def Let_def)
next
  case False
  with assms show ?thesis
    by (simp add: ak_page_requestPages_def mmap_def Let_def)
qed

text \<open>
  C2.  The claim asks for the null, zero-count chunk whenever the primitive fails.  The
  Linux branch returns it (\<open>requestPages_linux_failure\<close>).  The Windows branch does not
  test what \<^verbatim>\<open>VirtualAlloc\<close> returned: a request for 4 pages of 4096 bytes that
  \<^verbatim>\<open>VirtualAlloc\<close> refuses comes back with a null start and count 4.
\<close>

theorem requestPages_windows_failure_keeps_count:
  "ak_page_requestPages Windows os_refuse [] 4096 NULL 4 =
     (\<lparr>start = NULL, count = 4\<rparr>, [Call_VirtualAlloc NULL 16384 0x3000 0x04])"
  by (simp add: ak_page_requestPages_def os_refuse_def VirtualAlloc_def NULL_def SIZE_MAX_def
      MEM_COMMIT_def MEM_RESERVE_def PAGE_READWRITE_def)

text \<open>
  C4.  A chunk returned with a non-null start carries exactly the count that was
  requested, on both platforms and whatever the operating system answered.
\<close>

theorem requestPages_all_or_nothing:
  "start (fst (ak_page_requestPages pf sys tr page_size addr cnt)) \<noteq> NULL \<Longrightarrow>
   count (fst (ak_page_requestPages pf sys tr page_size addr cnt)) = cnt"
  by (auto simp: ak_page_requestPages_def Let_def VirtualAlloc_def mmap_def
      split: platform.splits if_splits)

theorem requestPages_all_or_nothing_witness:
  "start (fst (ak_page_requestPages Linux os_grant [] 4096 NULL 4)) \<noteq> NULL \<and>
   count (fst (ak_page_requestPages Linux os_grant [] 4096 NULL 4)) = 4"
  using requestPages_all_or_nothing [of Linux os_grant "[]" 4096 NULL 4]
  by (simp add: ak_page_requestPages_def os_grant_def mmap_def NULL_def SIZE_MAX_def
      MAP_FAILED_def)

text \<open>
  With a non-null hint the Linux branch sets \<^verbatim>\<open>MAP_FIXED\<close>.  When \<^verbatim>\<open>mmap\<close> honours it
  (it answers the hint or \<^verbatim>\<open>MAP_FAILED\<close>), the chunk is at the hint with the requested
  count, or it is the null, zero-count chunk.
\<close>

lemma requestPages_linux_hint:
  assumes "addr \<noteq> NULL"
    and "os_mmap sys tr addr (page_size * cnt) (PROT_READ OR PROT_WRITE)
           ((MAP_ANONYMOUS OR MAP_PRIVATE) OR MAP_FIXED) (- 1) 0 \<in> {addr, MAP_FAILED}"
  shows "fst (ak_page_requestPages Linux sys tr page_size addr cnt) \<in>
           {\<lparr>start = addr, count = cnt\<rparr>, \<lparr>start = NULL, count = 0\<rparr>}"
  using assms by (auto simp: ak_page_requestPages_def mmap_def Let_def)

text \<open>
  C6.  With a non-null hint the claim allows two outcomes: the chunk starts at the hint,
  or it is the null, zero-count chunk.  On Windows a refused request at hint
  \<open>0x10000\<close> gives a third one, null start with count 4: the defect of C2.  The Linux
  branch keeps to the two outcomes (\<open>requestPages_linux_hint\<close>).
\<close>

theorem requestPages_windows_hint_failure:
  "(0x10000 :: 64 word) \<noteq> NULL \<and>
   fst (ak_page_requestPages Windows os_refuse [] 4096 0x10000 4) =
     \<lparr>start = NULL, count = 4\<rparr> \<and>
   start (fst (ak_page_requestPages Windows os_refuse [] 4096 0x10000 4)) \<noteq> 0x10000 \<and>
   fst (ak_page_requestPages Windows os_refuse [] 4096 0x10000 4) \<noteq>
     \<lparr>start = NULL, count = 0\<rparr>"
  by (simp add: ak_page_requestPages_def os_refuse_def VirtualAlloc_def NULL_def SIZE_MAX_def)

section \<open>Returning pages\<close>

text \<open>
  C5.  \<^verbatim>\<open>ak_page_returnPages\<close> has two outcomes.  If the release primitive reports
  failure, the result is 0 and the chunk is the one passed in; otherwise the result is
  nonzero and the chunk's start is null.
\<close>

theorem returnPages_success_or_untouched:
  "(if release_failed pf sys tr page_size pages
    then fst (ak_page_returnPages pf sys tr page_size pages) = 0 \<and>
         fst (snd (ak_page_returnPages pf sys tr page_size pages)) = pages
    else fst (ak_page_returnPages pf sys tr page_size pages) \<noteq> 0 \<and>
         start (fst (snd (ak_page_returnPages pf sys tr page_size pages))) = NULL)"
  using returnPages_result [of pf sys tr page_size pages]
    returnPages_chunk [of pf sys tr page_size pages]
  by simp

text \<open>
  C10.  The count field after \<^verbatim>\<open>ak_page_returnPages\<close> is the count field before it.
  On success the chunk differs from the one passed in only in its start, which is null;
  on failure it does not differ at all.
\<close>

theorem returnPages_keeps_count:
  "count (fst (snd (ak_page_returnPages pf sys tr page_size pages))) = count pages \<and>
   fst (snd (ak_page_returnPages pf sys tr page_size pages)) =
     (if fst (ak_page_returnPages pf sys tr page_size pages) \<noteq> 0
      then pages\<lparr>start := NULL\<rparr> else pages)"
  using returnPages_chunk [of pf sys tr page_size pages] by simp

text \<open>
  C7, as stated, fails: \<^verbatim>\<open>ak_page_returnPages\<close> has no overflow check.  On a 64-bit
  Linux build, with page size \<open>2^63\<close> and a chunk of 2 pages, the product does not fit,
  yet \<^verbatim>\<open>munmap\<close> is called (with the wrapped length 0) and the release is reported as a
  success.
\<close>

theorem returnPages_overflow_counterexample:
  "2 ^ LENGTH(64) \<le> unat (2 ^ 63 :: 64 word) * unat (2 :: 64 word) \<and>
   ak_page_returnPages Linux os_grant [] (2 ^ 63) \<lparr>start = 0x10000, count = 2\<rparr> =
     (1, \<lparr>start = NULL, count = 2\<rparr>, [Call_munmap 0x10000 0])"
  by (simp add: ak_page_returnPages_def os_grant_def munmap_def)

text \<open>
  C7, amended.  The product of \<^verbatim>\<open>ak_page_requestPages\<close> is checked before any call to
  the operating system: on overflow the null, zero-count chunk is returned and the trace
  is unchanged.  \<^verbatim>\<open>ak_page_returnPages\<close> checks nothing: it always makes exactly one
  call, \<^verbatim>\<open>munmap\<close> with the product reduced modulo the word size on Linux,
  \<^verbatim>\<open>VirtualFree\<close> with size 0 on Windows.
\<close>

theorem overflow_checked_on_request_only:
  fixes page_size cnt :: "'w::len word"
  shows "(2 ^ LENGTH('w) \<le> unat page_size * unat cnt \<longrightarrow>
            ak_page_requestPages pf sys tr page_size addr cnt =
              (\<lparr>start = NULL, count = 0\<rparr>, tr)) \<and>
         snd (snd (ak_page_returnPages pf sys tr page_size pages)) =
           tr @ [case pf of
                   Windows \<Rightarrow> Call_VirtualFree (start pages) 0 MEM_RELEASE
                 | Linux \<Rightarrow> Call_munmap (start pages) (page_size * count pages)]"
  using requestPages_on_overflow [of page_size cnt pf sys tr addr]
    returnPages_trace [of pf sys tr page_size pages]
  by simp

theorem overflow_checked_on_request_only_witness:
  "2 ^ LENGTH(64) \<le> unat (2 ^ 63 :: 64 word) * unat (2 :: 64 word) \<and>
   ak_page_requestPages Windows os_grant [] (2 ^ 63) NULL 2 =
     (\<lparr>start = NULL, count = 0\<rparr>, []) \<and>
   snd (snd (ak_page_returnPages Windows os_grant [] (2 ^ 63) \<lparr>start = 0x10000, count = 2\<rparr>)) =
     [Call_VirtualFree 0x10000 0 MEM_RELEASE]"
  using overflow_checked_on_request_only [where 'w = 64, of "2 ^ 63" 2 Windows os_grant "[]" NULL
      "\<lparr>start = 0x10000, count = 2\<rparr>"]
  by simp

section \<open>The chunk invariant\<close>

text \<open>
  C3, as stated, fails.  A chunk obtained from \<^verbatim>\<open>ak_page_requestPages\<close> and released
  with \<^verbatim>\<open>ak_page_returnPages\<close> has a null start and still its count of 4.
\<close>

theorem chunk_invariant_counterexample:
  "fst (ak_page_requestPages Linux os_grant [] 4096 NULL 4) =
     \<lparr>start = 0x7F0000000000, count = 4\<rparr> \<and>
   fst (ak_page_returnPages Linux os_grant [] 4096 \<lparr>start = 0x7F0000000000, count = 4\<rparr>) = 1 \<and>
   fst (snd (ak_page_returnPages Linux os_grant [] 4096 \<lparr>start = 0x7F0000000000, count = 4\<rparr>)) =
     \<lparr>start = NULL, count = 4\<rparr> \<and>
   \<not> chunk_invariant
       (fst (snd (ak_page_returnPages Linux os_grant [] 4096
          \<lparr>start = 0x7F0000000000, count = 4\<rparr>)))"
  by (simp add: ak_page_requestPages_def ak_page_returnPages_def os_grant_def mmap_def munmap_def
      chunk_invariant_def NULL_def SIZE_MAX_def MAP_FAILED_def)

text \<open>
  C3, amended.  On the Linux build, when \<^verbatim>\<open>mmap\<close> answers \<^verbatim>\<open>MAP_FAILED\<close> or a non-null
  address and refuses a zero length, the chunk \<^verbatim>\<open>ak_page_requestPages\<close> returns has a
  null start if and only if its count is 0.  After \<^verbatim>\<open>ak_page_returnPages\<close>, on either
  platform, a failed release leaves the invariant as it was, and a successful release
  leaves a null start with the count it found, so that the invariant holds exactly when
  that count is 0.
\<close>

theorem chunk_invariant_amended:
  fixes sys :: "'w::len opsys"
  assumes m: "m = os_mmap sys tr addr (page_size * cnt) (PROT_READ OR PROT_WRITE)
                 (if addr \<noteq> NULL then (MAP_ANONYMOUS OR MAP_PRIVATE) OR MAP_FIXED
                  else MAP_ANONYMOUS OR MAP_PRIVATE) (- 1) 0"
    and nonnull: "m \<noteq> NULL"
    and zero_length: "page_size * cnt = 0 \<longrightarrow> m = MAP_FAILED"
  shows "chunk_invariant (fst (ak_page_requestPages Linux sys tr page_size addr cnt)) \<and>
         chunk_invariant (fst (snd (ak_page_returnPages pf sys tr2 ps pages))) =
           (if fst (ak_page_returnPages pf sys tr2 ps pages) \<noteq> 0 then count pages = 0
            else chunk_invariant pages)"
proof
  show "chunk_invariant (fst (ak_page_requestPages Linux sys tr page_size addr cnt))"
  proof (cases "addr = NULL")
    case True
    with m nonnull zero_length show ?thesis
      by (auto simp: ak_page_requestPages_def mmap_def Let_def chunk_invariant_def)
  next
    case False
    with m nonnull zero_length show ?thesis
      by (auto simp: ak_page_requestPages_def mmap_def Let_def chunk_invariant_def)
  qed
next
  show "chunk_invariant (fst (snd (ak_page_returnPages pf sys tr2 ps pages))) =
           (if fst (ak_page_returnPages pf sys tr2 ps pages) \<noteq> 0 then count pages = 0
            else chunk_invariant pages)"
    by (simp add: returnPages_chunk chunk_invariant_def)
qed

theorem chunk_invariant_amended_witness:
  "(0x7F0000000000 :: 64 word) =
     os_mmap os_grant [] NULL (4096 * 4) (PROT_READ OR PROT_WRITE)
       (if (NULL :: 64 word) \<noteq> NULL then (MAP_ANONYMOUS OR MAP_PRIVATE) OR MAP_FIXED
        else MAP_ANONYMOUS OR MAP_PRIVATE) (- 1) 0 \<and>
   (0x7F0000000000 :: 64 word) \<noteq> NULL \<and>
   (4096 :: 64 word) * 4 \<noteq> 0 \<and>
   chunk_invariant (fst (ak_page_requestPages Linux os_grant [] 4096 NULL 4)) \<and>
   chunk_invariant
     (fst (snd (ak_page_returnPages Linux os_grant [] 4096 \<lparr>start = 0x7F0000000000, count = 4\<rparr>))) =
     (count (\<lparr>start = 0x7F0000000000, count = 4\<rparr> :: 64 chunk) = 0)"
  using chunk_invariant_amended [where 'w = 64 and m = "0x7F0000000000" and sys = os_grant
      and tr = "[]" and addr = NULL and page_size = 4096 and cnt = 4 and pf = Linux
      and ?tr2.0 = "[]" and ps = 4096 and pages = "\<lparr>start = 0x7F0000000000, count = 4\<rparr>"]
  by (simp add: os_grant_def NULL_def MAP_FAILED_def ak_page_returnPages_def munmap_def)

section \<open>Dispatch through the allocator interface\<close>

text \<open>
  C8.  The claim says that each entry point calls the capability of the instance passed
  as \<open>pAlloc\<close>.  With the header's definitions, \<^verbatim>\<open>ak_free(a, p)\<close> expands to
  \<^verbatim>\<open>((Alloc)->free)((a), p)\<close>: the capability is taken from whatever \<^verbatim>\<open>Alloc\<close> names
  where the macro is used.  \<^verbatim>\<open>ak_resize(a, p, int, n)\<close> and \<^verbatim>\<open>ak_alloc(a, int, n)\<close> expand
  to calls of \<^verbatim>\<open>ak_resize\<close> and \<^verbatim>\<open>ak_alloc\<close> themselves, with no capability in them,
  because the second definition of each name has replaced the first.
\<close>

theorem macros_do_not_dispatch_on_pAlloc:
  "expand allockit_defines ''ak_free'' [Ident ''a'', Ident ''p''] =
     Some (Call (Arrow (Ident ''Alloc'') ''free'') [Ident ''a'', Ident ''p'']) \<and>
   expand allockit_defines ''ak_free'' [Ident ''a'', Ident ''p''] \<noteq>
     Some (dispatch_free (Ident ''a'') (Ident ''p'')) \<and>
   expand allockit_defines ''ak_resize'' [Ident ''a'', Ident ''p'', Ident ''int'', Ident ''n''] =
     Some (Call (Ident ''ak_resize'')
       [Ident ''a'', Ident ''p'', Sizeof (Ident ''int''), Alignof (Ident ''int''), Ident ''n'']) \<and>
   expand allockit_defines ''ak_resize'' [Ident ''a'', Ident ''p'', Ident ''int'', Ident ''n''] \<noteq>
     Some (dispatch_resize (Ident ''a'') (Ident ''p'') (Ident ''int'') (Ident ''n'')) \<and>
   expand allockit_defines ''ak_alloc'' [Ident ''a'', Ident ''int'', Ident ''n''] =
     Some (Call (Ident ''ak_alloc'')
       [Ident ''a'', Sizeof (Ident ''int''), Alignof (Ident ''int''), Ident ''n'']) \<and>
   expand allockit_defines ''ak_alloc'' [Ident ''a'', Ident ''int'', Ident ''n''] \<noteq>
     Some (dispatch_alloc (Ident ''a'') (Ident ''int'') (Ident ''n''))"
  by (simp add: expand_def allockit_defines_def dispatch_free_def dispatch_resize_def
      dispatch_alloc_def)

text \<open>
  The first definition of \<^verbatim>\<open>ak_alloc\<close>, taken alone, is the dispatch of the claim; the
  first definition of \<^verbatim>\<open>ak_resize\<close>, taken alone, already names \<^verbatim>\<open>Alloc\<close>.
\<close>

lemma first_ak_alloc_define_dispatches:
  "expand (take 1 allockit_defines) ''ak_alloc''
     [pAlloc, Sizeof T, Alignof T, Count] = Some (dispatch_alloc pAlloc T Count)"
  by (simp add: expand_def allockit_defines_def dispatch_alloc_def)

lemma five_parameter_ak_resize_names_Alloc:
  "expand (take 3 allockit_defines) ''ak_resize''
     [Ident ''a'', Ident ''p'', Sizeof (Ident ''int''), Alignof (Ident ''int''), Ident ''n''] =
   Some (Call (Arrow (Ident ''Alloc'') ''resize'')
     [Ident ''a'', Ident ''p'', Sizeof (Ident ''int''), Alignof (Ident ''int''), Ident ''n''])"
  by (simp add: expand_def allockit_defines_def)

end
